theory Spec2Isabelle
  imports Main
begin

section \<open>Data model (components/Auth.tsx, components/AuthDisplay.tsx)\<close>

text \<open>
  The TypeScript interfaces \<open>User\<close> and \<open>AuthState\<close> become records. An optional
  field (\<open>displayName?: string\<close>) is an \<open>option\<close>; \<open>User | null\<close> and
  \<open>string | null\<close> are options too. The field \<open>id\<close> of \<open>User\<close> is written
  \<open>id_User\<close>, since \<open>id\<close> is the identity function of HOL.

  Strings are \<open>string\<close> (lists of 8-bit characters): the model covers ASCII text.
\<close>

record User =
  id_User :: string
  email :: string
  displayName :: "string option"
  photoURL :: "string option"
  provider :: "string option"

record AuthState =
  user :: "User option"
  loading :: bool
  error :: "string option"
  isConfigured :: bool

text \<open>
  \<open>Partial<AuthState>\<close>: every key may be missing. \<open>None\<close> is a missing key,
  \<open>Some v\<close> a key that is written with the value \<open>v\<close> (\<open>Some None\<close> writes \<open>null\<close>).
\<close>

record PartialAuthState =
  p_user :: "User option option"
  p_loading :: "bool option"
  p_error :: "string option option"
  p_isConfigured :: "bool option"

definition no_updates :: PartialAuthState where
  "no_updates = \<lparr>p_user = None, p_loading = None, p_error = None, p_isConfigured = None\<rparr>"

text \<open>The object spread \<open>{ ...prev, ...updates }\<close> of \<open>updateAuthState\<close>.\<close>

definition spread :: "AuthState \<Rightarrow> PartialAuthState \<Rightarrow> AuthState" where
  "spread prev updates =
     \<lparr>user = (case p_user updates of None \<Rightarrow> user prev | Some u \<Rightarrow> u),
      loading = (case p_loading updates of None \<Rightarrow> loading prev | Some l \<Rightarrow> l),
      error = (case p_error updates of None \<Rightarrow> error prev | Some e \<Rightarrow> e),
      isConfigured = (case p_isConfigured updates of None \<Rightarrow> isConfigured prev | Some c \<Rightarrow> c)\<rparr>"

text \<open>The argument of \<open>useState<AuthState>\<close>: the state at mount.\<close>

definition initialAuthState :: AuthState where
  "initialAuthState = \<lparr>user = None, loading = False, error = None, isConfigured = False\<rparr>"

section \<open>JavaScript values and string operations\<close>

text \<open>
  Truthiness of an optional string: \<open>undefined\<close>, \<open>null\<close> and the empty string are
  falsy. \<open>a || b\<close> yields \<open>a\<close> when it is truthy and \<open>b\<close> otherwise.
\<close>

definition truthy :: "string option \<Rightarrow> bool" where
  "truthy v = (case v of None \<Rightarrow> False | Some s \<Rightarrow> s \<noteq> [])"

definition or_string :: "string option \<Rightarrow> string \<Rightarrow> string" where
  "or_string a b = (case a of None \<Rightarrow> b | Some s \<Rightarrow> if s \<noteq> [] then s else b)"

definition or_optional :: "string option \<Rightarrow> string option \<Rightarrow> string option" where
  "or_optional a b = (case a of None \<Rightarrow> b | Some s \<Rightarrow> if s \<noteq> [] then Some s else b)"

text \<open>ASCII white space, as \<open>String.prototype.trim\<close> removes it from both ends.\<close>

definition isWhiteSpace :: "char \<Rightarrow> bool" where
  "isWhiteSpace c = (c \<in> set [CHR 0x09, CHR 0x0A, CHR 0x0B, CHR 0x0C, CHR 0x0D, CHR '' ''])"

definition trim :: "string \<Rightarrow> string" where
  "trim s = rev (dropWhile isWhiteSpace (rev (dropWhile isWhiteSpace s)))"

text \<open>\<open>s.split(sep)\<close> for a separator of one character; \<open>''.split(' ')\<close> is \<open>['']\<close>.\<close>

fun split :: "char \<Rightarrow> string \<Rightarrow> string list" where
  "split sep [] = [[]]"
| "split sep (c # cs) =
     (if c = sep then [] # split sep cs
      else (case split sep cs of
              [] \<Rightarrow> [[c]]
            | t # ts \<Rightarrow> (c # t) # ts))"

text \<open>\<open>toUpperCase\<close> on ASCII: the letters a to z move to A to Z.\<close>

definition toUpperCase_char :: "char \<Rightarrow> char" where
  "toUpperCase_char c =
     (let n = (of_char c :: nat) in if 97 \<le> n \<and> n \<le> 122 then char_of (n - 32) else c)"

definition toUpperCase :: "string \<Rightarrow> string" where
  "toUpperCase s = map toUpperCase_char s"

text \<open>\<open>s.charAt(0)\<close>: the first character as a string, or the empty string.\<close>

definition charAt0 :: "string \<Rightarrow> string" where
  "charAt0 s = take 1 s"

text \<open>
  \<open>`${s[0]}`\<close>: indexing past the end of a string gives \<open>undefined\<close>, which a template
  literal prints as the word.
\<close>

definition template_index0 :: "string \<Rightarrow> string" where
  "template_index0 s = (case s of [] \<Rightarrow> ''undefined'' | c # _ \<Rightarrow> [c])"

section \<open>AuthDisplay: the initials of the placeholder\<close>

definition getInitials :: "string option \<Rightarrow> string" where
  "getInitials name =
     (case name of
        None \<Rightarrow> ''?''
      | Some n \<Rightarrow>
          if n = [] then ''?''
          else (let names = split CHR '' '' (trim n) in
                if length names \<ge> 2
                then toUpperCase (template_index0 (names ! 0) @
                                  template_index0 (names ! (length names - 1)))
                else toUpperCase (charAt0 n)))"

text \<open>
  What the image container of \<open>AuthDisplay\<close> shows for a signed-in user: the picture
  when \<open>user.photoURL\<close> is truthy, otherwise the placeholder with
  \<open>getInitials(user.displayName)\<close>.
\<close>

datatype avatar = Image string | PlaceholderText string

definition imageContainer :: "User \<Rightarrow> avatar" where
  "imageContainer u =
     (if truthy (photoURL u) then Image (the (photoURL u))
      else PlaceholderText (getInitials (displayName u)))"

section \<open>Thrown values, asynchronous results and the trace of an operation\<close>

text \<open>
  What a \<open>catch\<close> clause can receive, as far as the handlers of \<open>Auth.tsx\<close> tell values
  apart: an instance of \<open>Error\<close> with its message; another non-null object, with its
  \<open>code\<close> and \<open>message\<close> properties; any other value.
\<close>

datatype thrown =
    Error string
  | ErrorObject "string option" "string option"
  | OtherValue

text \<open>An awaited promise resolves with a value or rejects with a thrown value.\<close>

datatype 'a outcome = Resolves 'a | Rejects thrown

text \<open>
  The effects of an operation, in program order: the calls to the collaborators
  (\<open>GoogleSignin\<close>, \<open>supabase.auth\<close>, \<open>console\<close>, \<open>Alert\<close>) and the functional state
  updates \<open>setAuthState(prev => ({ ...prev, ...updates }))\<close>.
\<close>

datatype event =
    SetAuthState PartialAuthState
  | GoogleSignin_configure
  | GoogleSignin_hasPlayServices
  | GoogleSignin_signOut
  | GoogleSignin_signIn
  | supabase_auth_getSession
  | supabase_auth_signInWithIdToken string string
  | supabase_auth_signOut
  | console_error
  | console_warn
  | Alert_alert string string

text \<open>
  A computation yields the events it performed and either the value it returns or the
  value it throws.
\<close>

type_synonym 'a comp = "event list \<times> (thrown + 'a)"

definition resolve :: "'a \<Rightarrow> 'a comp" where
  "resolve x = ([], Inr x)"

definition throw :: "thrown \<Rightarrow> 'a comp" where
  "throw e = ([], Inl e)"

definition emit :: "event \<Rightarrow> unit comp" where
  "emit ev = ([ev], Inr ())"

definition await :: "event \<Rightarrow> 'a outcome \<Rightarrow> 'a comp" where
  "await ev r = ([ev], case r of Resolves x \<Rightarrow> Inr x | Rejects e \<Rightarrow> Inl e)"

text \<open>Sequencing: a throw skips the rest of the block.\<close>

definition andThen :: "'a comp \<Rightarrow> ('a \<Rightarrow> 'b comp) \<Rightarrow> 'b comp" where
  "andThen m f =
     (case m of
        (t, Inl e) \<Rightarrow> (t, Inl e)
      | (t, Inr x) \<Rightarrow> (case f x of (t', r) \<Rightarrow> (t @ t', r)))"

definition try_catch :: "'a comp \<Rightarrow> (thrown \<Rightarrow> 'a comp) \<Rightarrow> 'a comp" where
  "try_catch m handler =
     (case m of
        (t, Inl e) \<Rightarrow> (case handler e of (t', r) \<Rightarrow> (t @ t', r))
      | (t, Inr x) \<Rightarrow> (t, Inr x))"

definition try_finally :: "'a comp \<Rightarrow> unit comp \<Rightarrow> 'a comp" where
  "try_finally m finalizer =
     (case m of (t, r) \<Rightarrow>
        (case finalizer of
           (t', Inl e) \<Rightarrow> (t @ t', Inl e)
         | (t', Inr _) \<Rightarrow> (t @ t', r)))"

text \<open>Applying the state updates of a trace, and the states passed through on the way.\<close>

fun step :: "event \<Rightarrow> AuthState \<Rightarrow> AuthState" where
  "step (SetAuthState updates) prev = spread prev updates"
| "step _ prev = prev"

fun run :: "event list \<Rightarrow> AuthState \<Rightarrow> AuthState" where
  "run [] s = s"
| "run (ev # evs) s = run evs (step ev s)"

fun states :: "event list \<Rightarrow> AuthState \<Rightarrow> AuthState list" where
  "states [] s = []"
| "states (ev # evs) s = step ev s # states evs (step ev s)"

section \<open>The collaborators\<close>

text \<open>
  \<open>result.data.user\<close> of \<open>GoogleSignin.signIn()\<close>, the user record of the Supabase
  client and its \<open>user_metadata\<close>, with the fields the code reads.
\<close>

record GoogleUser =
  google_email :: string
  google_name :: "string option"
  google_photo :: "string option"

record SignInData =
  signIn_user :: GoogleUser
  idToken :: "string option"

record SignInResponse =
  data :: "SignInData option"

record UserMetadata =
  full_name :: "string option"
  name :: "string option"
  avatar_url :: "string option"
  picture :: "string option"

record SupabaseUser =
  supabase_id :: string
  supabase_email :: "string option"
  user_metadata :: "UserMetadata option"

text \<open>
  \<open>{ data, error }\<close> of \<open>signInWithIdToken\<close>: \<open>data.user\<close> and the message of
  \<open>error\<close>, \<open>None\<close> for \<open>null\<close>.
\<close>

record AuthTokenResponse =
  response_user :: "SupabaseUser option"
  response_error :: "string option"

text \<open>
  What one run of an operation meets outside the component: the platform, the constants
  \<open>statusCodes\<close> of the Google library, the environment variable, and how each call to a
  collaborator ends. \<open>supabase.auth.signOut()\<close> resolves with the message of
  \<open>error\<close> (\<open>None\<close> for \<open>null\<close>), \<open>getSession()\<close> with \<open>session?.user\<close>.
\<close>

record env =
  Platform_OS :: string
  SIGN_IN_CANCELLED :: string
  IN_PROGRESS :: string
  PLAY_SERVICES_NOT_AVAILABLE :: string
  EXPO_PUBLIC_GOOGLE_WEB_CLIENT_ID :: "string option"
  configure_outcome :: "unit outcome"
  hasPlayServices_outcome :: "unit outcome"
  google_signOut_outcome :: "unit outcome"
  google_signIn_outcome :: "SignInResponse outcome"
  signInWithIdToken_outcome :: "string \<Rightarrow> string \<Rightarrow> AuthTokenResponse outcome"
  supabase_signOut_outcome :: "string option outcome"
  getSession_outcome :: "SupabaseUser option outcome"

section \<open>Auth: startup\<close>

definition configureGoogleSignIn :: "env \<Rightarrow> bool comp" where
  "configureGoogleSignIn e =
     try_catch
       (if \<not> truthy (EXPO_PUBLIC_GOOGLE_WEB_CLIENT_ID e)
        then andThen (emit console_error) (\<lambda>_. resolve False)
        else andThen (await GoogleSignin_configure (configure_outcome e)) (\<lambda>_. resolve True))
       (\<lambda>error. andThen (emit console_error) (\<lambda>_. resolve False))"

definition updateAuthState :: "PartialAuthState \<Rightarrow> unit comp" where
  "updateAuthState updates = emit (SetAuthState updates)"

definition session_user :: "SupabaseUser \<Rightarrow> User" where
  "session_user u =
     \<lparr>id_User = supabase_id u,
      email = or_string (supabase_email u) [],
      displayName = (case user_metadata u of
                       None \<Rightarrow> None
                     | Some m \<Rightarrow> or_optional (full_name m) (name m)),
      photoURL = (case user_metadata u of
                    None \<Rightarrow> None
                  | Some m \<Rightarrow> or_optional (avatar_url m) (picture m)),
      provider = Some ''google''\<rparr>"

definition checkExistingSession :: "env \<Rightarrow> unit comp" where
  "checkExistingSession e =
     try_catch
       (andThen (await supabase_auth_getSession (getSession_outcome e)) (\<lambda>session.
          case session of
            None \<Rightarrow> resolve ()
          | Some u \<Rightarrow> emit (SetAuthState (no_updates\<lparr>p_user := Some (Some (session_user u))\<rparr>))))
       (\<lambda>error. emit console_error)"

text \<open>The effect run once at mount.\<close>

definition startup :: "env \<Rightarrow> unit comp" where
  "startup e =
     andThen (configureGoogleSignIn e) (\<lambda>isConfigured.
     andThen (emit (SetAuthState (no_updates\<lparr>p_isConfigured := Some isConfigured\<rparr>))) (\<lambda>_.
     checkExistingSession e))"

section \<open>Auth: signInWithGoogle\<close>

definition userData :: "SupabaseUser \<Rightarrow> GoogleUser \<Rightarrow> User" where
  "userData data_user googleUser =
     \<lparr>id_User = supabase_id data_user,
      email = or_string (supabase_email data_user) (google_email googleUser),
      displayName = Some (or_string (google_name googleUser) []),
      photoURL = Some (or_string (google_photo googleUser) []),
      provider = Some ''google''\<rparr>"

text \<open>The \<open>try\<close> block. \<open>authState\<close> is the state the render closed over.\<close>

definition signIn_try :: "env \<Rightarrow> AuthState \<Rightarrow> unit comp" where
  "signIn_try e authState =
     andThen (updateAuthState (no_updates\<lparr>p_loading := Some True, p_error := Some None\<rparr>)) (\<lambda>_.
     andThen (if Platform_OS e \<noteq> ''android''
              then throw (Error ''Google Sign-In is currently only available on Android'')
              else resolve ()) (\<lambda>_.
     andThen (if \<not> isConfigured authState
              then throw (Error ''Google Sign-In is not properly configured'')
              else resolve ()) (\<lambda>_.
     andThen (await GoogleSignin_hasPlayServices (hasPlayServices_outcome e)) (\<lambda>_.
     andThen (await GoogleSignin_signOut (google_signOut_outcome e)) (\<lambda>_.
     andThen (await GoogleSignin_signIn (google_signIn_outcome e)) (\<lambda>result.
       case data result of
         None \<Rightarrow> throw (Error ''No user data received from Google'')
       | Some d \<Rightarrow>
           (case idToken d of
              None \<Rightarrow> throw (Error ''No ID token received from Google'')
            | Some token \<Rightarrow>
                if token = [] then throw (Error ''No ID token received from Google'')
                else
                  andThen (await (supabase_auth_signInWithIdToken ''google'' token)
                             (signInWithIdToken_outcome e ''google'' token)) (\<lambda>response.
                    case response_error response of
                      Some message \<Rightarrow>
                        throw (Error (''Supabase authentication failed: '' @ message))
                    | None \<Rightarrow>
                        (case response_user response of
                           None \<Rightarrow> throw (Error ''No user data received from Supabase'')
                         | Some u \<Rightarrow>
                             updateAuthState
                               (no_updates\<lparr>p_user := Some (Some (userData u (signIn_user d))),
                                            p_error := Some None\<rparr>))))))))))"

text \<open>
  The \<open>catch\<close> block; \<open>thrownValue\<close> is its parameter \<open>error\<close> (the name is
  taken by the field of \<open>AuthState\<close>).
\<close>

definition signIn_errorMessage :: "env \<Rightarrow> thrown \<Rightarrow> string" where
  "signIn_errorMessage e thrownValue =
     (case thrownValue of
        Error message \<Rightarrow> message
      | ErrorObject code message \<Rightarrow>
          if code = Some (SIGN_IN_CANCELLED e) then ''Sign-in was cancelled''
          else if code = Some (IN_PROGRESS e) then ''Sign-in is already in progress''
          else if code = Some (PLAY_SERVICES_NOT_AVAILABLE e)
               then ''Google Play Services is not available''
          else or_string message ''Google Sign-In failed''
      | OtherValue \<Rightarrow> ''An unexpected error occurred'')"

definition signIn_catch :: "env \<Rightarrow> thrown \<Rightarrow> unit comp" where
  "signIn_catch e thrownValue =
     (let errorMessage = signIn_errorMessage e thrownValue in
      andThen (emit console_error) (\<lambda>_.
      andThen (updateAuthState (no_updates\<lparr>p_error := Some (Some errorMessage)\<rparr>)) (\<lambda>_.
      emit (Alert_alert ''Sign-In Failed'' errorMessage))))"

definition signInWithGoogle :: "env \<Rightarrow> AuthState \<Rightarrow> unit comp" where
  "signInWithGoogle e authState =
     try_finally
       (try_catch (signIn_try e authState) (signIn_catch e))
       (updateAuthState (no_updates\<lparr>p_loading := Some False\<rparr>))"

section \<open>Auth: signOut\<close>

definition signOut_try :: "env \<Rightarrow> unit comp" where
  "signOut_try e =
     andThen (updateAuthState (no_updates\<lparr>p_loading := Some True, p_error := Some None\<rparr>)) (\<lambda>_.
     andThen (try_catch (await GoogleSignin_signOut (google_signOut_outcome e))
                (\<lambda>error. emit console_warn)) (\<lambda>_.
     andThen (await supabase_auth_signOut (supabase_signOut_outcome e)) (\<lambda>error.
       case error of
         Some message \<Rightarrow> throw (Error (''Sign-out failed: '' @ message))
       | None \<Rightarrow> updateAuthState (no_updates\<lparr>p_user := Some None\<rparr>))))"

definition signOut_errorMessage :: "thrown \<Rightarrow> string" where
  "signOut_errorMessage thrownValue =
     (case thrownValue of Error message \<Rightarrow> message | _ \<Rightarrow> ''Sign-out failed'')"

definition signOut_catch :: "thrown \<Rightarrow> unit comp" where
  "signOut_catch thrownValue =
     (let errorMessage = signOut_errorMessage thrownValue in
      andThen (emit console_error) (\<lambda>_.
      andThen (updateAuthState (no_updates\<lparr>p_error := Some (Some errorMessage)\<rparr>)) (\<lambda>_.
      emit (Alert_alert ''Sign-Out Failed'' errorMessage))))"

definition signOut :: "env \<Rightarrow> unit comp" where
  "signOut e =
     try_finally
       (try_catch (signOut_try e) signOut_catch)
       (updateAuthState (no_updates\<lparr>p_loading := Some False\<rparr>))"

section \<open>The component at rest\<close>

text \<open>
  Between operations the render has caught up with the state, so an operation starts
  from the state it closed over. \<open>mount\<close> is the state after the startup effect;
  \<open>perform\<close> runs one whole operation.
\<close>

datatype operation = SignIn env | SignOut env | CheckExistingSession env

definition trace_of :: "operation \<Rightarrow> AuthState \<Rightarrow> event list" where
  "trace_of op s =
     (case op of
        SignIn e \<Rightarrow> fst (signInWithGoogle e s)
      | SignOut e \<Rightarrow> fst (signOut e)
      | CheckExistingSession e \<Rightarrow> fst (checkExistingSession e))"

definition perform :: "operation \<Rightarrow> AuthState \<Rightarrow> AuthState" where
  "perform op s = run (trace_of op s) s"

definition mount :: "env \<Rightarrow> AuthState" where
  "mount e = run (fst (startup e)) initialAuthState"

fun perform_all :: "operation list \<Rightarrow> AuthState \<Rightarrow> AuthState" where
  "perform_all [] s = s"
| "perform_all (op # ops) s = perform_all ops (perform op s)"

section \<open>Names for the properties, and example inputs\<close>

text \<open>
  The two object literals every operation passes to \<open>updateAuthState\<close>:
  \<open>{ loading: true, error: null }\<close> first and \<open>{ loading: false }\<close> last.
\<close>

definition entry_update :: PartialAuthState where
  "entry_update = no_updates\<lparr>p_loading := Some True, p_error := Some None\<rparr>"

definition exit_update :: PartialAuthState where
  "exit_update = no_updates\<lparr>p_loading := Some False\<rparr>"

text \<open>
  The strings the model of \<open>trim\<close> and \<open>toUpperCase\<close> speaks about: every character is
  below 128. On other characters JavaScript strips more white space and raises more
  letters than \<open>isWhiteSpace\<close> and \<open>toUpperCase_char\<close> do.
\<close>

definition isASCII :: "string \<Rightarrow> bool" where
  "isASCII s = list_all (\<lambda>c. (of_char c :: nat) < 128) s"

text \<open>An event that assigns the key \<open>isConfigured\<close>.\<close>

fun writes_isConfigured :: "event \<Rightarrow> bool" where
  "writes_isConfigured (SetAuthState updates) = (p_isConfigured updates \<noteq> None)"
| "writes_isConfigured _ = False"

text \<open>
  A run in which every collaborator answers well: Android, the client id set, Google
  returning the profile of Ada Lovelace with a token, Supabase confirming the user.
\<close>

definition ada_google :: GoogleUser where
  "ada_google =
     \<lparr>google_email = ''ada@x.com'', google_name = Some ''Ada Lovelace'', google_photo = None\<rparr>"

definition ada_supabase :: SupabaseUser where
  "ada_supabase =
     \<lparr>supabase_id = ''u1'', supabase_email = Some ''ada@x.com'', user_metadata = None\<rparr>"

definition example_env :: env where
  "example_env =
     \<lparr>Platform_OS = ''android'',
      SIGN_IN_CANCELLED = ''SIGN_IN_CANCELLED'',
      IN_PROGRESS = ''IN_PROGRESS'',
      PLAY_SERVICES_NOT_AVAILABLE = ''PLAY_SERVICES_NOT_AVAILABLE'',
      EXPO_PUBLIC_GOOGLE_WEB_CLIENT_ID = Some ''client-id'',
      configure_outcome = Resolves (),
      hasPlayServices_outcome = Resolves (),
      google_signOut_outcome = Resolves (),
      google_signIn_outcome =
        Resolves \<lparr>data = Some \<lparr>signIn_user = ada_google, idToken = Some ''token''\<rparr>\<rparr>,
      signInWithIdToken_outcome =
        (\<lambda>provider token. Resolves \<lparr>response_user = Some ada_supabase, response_error = None\<rparr>),
      supabase_signOut_outcome = Resolves None,
      getSession_outcome = Resolves None\<rparr>"

text \<open>The state after a good startup with no session, and a state with Ada signed in.\<close>

definition configured_state :: AuthState where
  "configured_state = \<lparr>user = None, loading = False, error = None, isConfigured = True\<rparr>"

definition ada_user :: User where
  "ada_user =
     \<lparr>id_User = ''u1'', email = ''ada@x.com'', displayName = Some ''Ada Lovelace'',
      photoURL = Some [], provider = Some ''google''\<rparr>"

definition signedIn_state :: AuthState where
  "signedIn_state = \<lparr>user = Some ada_user, loading = False, error = None, isConfigured = True\<rparr>"

section \<open>Basic facts about traces\<close>

lemmas comp_defs = resolve_def throw_def emit_def await_def andThen_def try_catch_def
  try_finally_def updateAuthState_def

lemmas update_defs = spread_def no_updates_def entry_update_def exit_update_def

lemmas example_defs = example_env_def ada_google_def ada_supabase_def configured_state_def
  ada_user_def signedIn_state_def

lemma run_append: "run (t @ t') s = run t' (run t s)"
  by (induction t arbitrary: s) simp_all

lemma states_append: "states (t @ t') s = states t s @ states t' (run t s)"
  by (induction t arbitrary: s) simp_all

lemma states_Nil_iff: "states t s = [] \<longleftrightarrow> t = []"
  by (cases t) simp_all

lemma last_states: "t \<noteq> [] \<Longrightarrow> last (states t s) = run t s"
proof (induction t arbitrary: s)
  case Nil
  then show ?case by simp
next
  case (Cons ev evs)
  show ?case
  proof (cases "evs = []")
    case True
    then show ?thesis by simp
  next
    case False
    then show ?thesis
      using Cons.IH [OF False, of "step ev s"] by (simp add: states_Nil_iff)
  qed
qed

text \<open>
  How the \<open>try\<close> block of \<open>signInWithGoogle\<close> ends: each line is one exit, in program
  order, with the value thrown there.
\<close>

lemma signIn_try_outcome:
  "snd (signIn_try e a) =
     (if Platform_OS e \<noteq> ''android''
      then Inl (Error ''Google Sign-In is currently only available on Android'')
      else if \<not> isConfigured a
      then Inl (Error ''Google Sign-In is not properly configured'')
      else case hasPlayServices_outcome e of
        Rejects thr \<Rightarrow> Inl thr
      | Resolves _ \<Rightarrow>
      (case google_signOut_outcome e of
        Rejects thr \<Rightarrow> Inl thr
      | Resolves _ \<Rightarrow>
      (case google_signIn_outcome e of
        Rejects thr \<Rightarrow> Inl thr
      | Resolves r \<Rightarrow>
      (case data r of
        None \<Rightarrow> Inl (Error ''No user data received from Google'')
      | Some d \<Rightarrow>
      if \<not> truthy (idToken d) then Inl (Error ''No ID token received from Google'')
      else case signInWithIdToken_outcome e ''google'' (the (idToken d)) of
        Rejects thr \<Rightarrow> Inl thr
      | Resolves response \<Rightarrow>
      (case response_error response of
        Some message \<Rightarrow> Inl (Error (''Supabase authentication failed: '' @ message))
      | None \<Rightarrow>
      (case response_user response of
        None \<Rightarrow> Inl (Error ''No user data received from Supabase'')
      | Some u \<Rightarrow> Inr ()))))))"
  by (simp add: signIn_try_def comp_defs truthy_def
      split: outcome.splits option.splits)

text \<open>A failed \<open>try\<close> block has updated the state once, at its entry.\<close>

lemma signIn_try_failure_trace:
  assumes "snd (signIn_try e a) = Inl thr"
  shows "\<exists>calls. fst (signIn_try e a) = SetAuthState entry_update # calls
           \<and> (\<forall>s. states calls s = replicate (length calls) s)"
  using assms
  by (auto simp: signIn_try_def comp_defs entry_update_def
      split: if_splits outcome.splits option.splits)

text \<open>The whole operation, from the end of its \<open>try\<close> block.\<close>

lemma signInWithGoogle_failure:
  assumes "snd (signIn_try e a) = Inl thr"
  shows "signInWithGoogle e a =
    (fst (signIn_try e a) @
       [console_error,
        SetAuthState (no_updates\<lparr>p_error := Some (Some (signIn_errorMessage e thr))\<rparr>),
        Alert_alert ''Sign-In Failed'' (signIn_errorMessage e thr),
        SetAuthState exit_update], Inr ())"
  using assms
  by (cases "signIn_try e a")
     (simp add: signInWithGoogle_def signIn_catch_def comp_defs exit_update_def Let_def)

lemma signInWithGoogle_success:
  assumes "snd (signIn_try e a) = Inr ()"
  shows "signInWithGoogle e a = (fst (signIn_try e a) @ [SetAuthState exit_update], Inr ())"
  using assms
  by (cases "signIn_try e a")
     (simp add: signInWithGoogle_def comp_defs exit_update_def)

lemma run_replicate_states:
  assumes "\<forall>s. states calls s = replicate (length calls) s"
  shows "run calls s = s"
proof (cases "calls = []")
  case True
  then show ?thesis by simp
next
  case False
  then have "run calls s = last (states calls s)"
    by (simp add: last_states)
  also have "\<dots> = s"
    using assms False by simp
  finally show ?thesis .
qed

lemma signIn_failure_state:
  assumes "snd (signIn_try e a) = Inl thr"
  shows "run (fst (signInWithGoogle e a)) s =
           s\<lparr>loading := False, error := Some (signIn_errorMessage e thr)\<rparr>"
proof -
  obtain calls where tr: "fst (signIn_try e a) = SetAuthState entry_update # calls"
    and quiet: "\<forall>s. states calls s = replicate (length calls) s"
    using signIn_try_failure_trace [OF assms] by blast
  have "run calls (spread s entry_update) = spread s entry_update"
    using quiet by (rule run_replicate_states)
  then show ?thesis
    by (simp add: signInWithGoogle_failure [OF assms] tr run_append update_defs)
qed

section \<open>The span of an operation, and the state at rest\<close>

lemmas signIn_defs = signInWithGoogle_def signIn_try_def signIn_catch_def
lemmas signOut_defs = signOut_def signOut_try_def signOut_catch_def

lemma signIn_entry: "take 1 (fst (signInWithGoogle e a)) = [SetAuthState entry_update]"
  by (simp add: signIn_defs comp_defs entry_update_def Let_def
      split: outcome.splits option.splits)

lemma signIn_in_flight: "list_all loading (butlast (states (fst (signInWithGoogle e a)) s))"
  by (simp add: signIn_defs comp_defs update_defs Let_def
      split: outcome.splits option.splits)

lemma signIn_exit: "\<not> loading (run (fst (signInWithGoogle e a)) s)"
  by (simp add: signIn_defs comp_defs update_defs Let_def
      split: outcome.splits option.splits)

lemma signIn_returns: "snd (signInWithGoogle e a) = Inr ()"
  by (simp add: signIn_defs comp_defs Let_def
      split: outcome.splits option.splits)

lemma signOut_entry: "take 1 (fst (signOut e)) = [SetAuthState entry_update]"
  by (simp add: signOut_defs comp_defs entry_update_def Let_def
      split: outcome.splits option.splits)

lemma signOut_in_flight: "list_all loading (butlast (states (fst (signOut e)) s))"
  by (simp add: signOut_defs comp_defs update_defs Let_def
      split: outcome.splits option.splits)

lemma signOut_exit: "\<not> loading (run (fst (signOut e)) s)"
  by (simp add: signOut_defs comp_defs update_defs Let_def
      split: outcome.splits option.splits)

lemma signOut_returns: "snd (signOut e) = Inr ()"
  by (simp add: signOut_defs comp_defs Let_def
      split: outcome.splits option.splits)

lemma checkExistingSession_loading:
  "loading (run (fst (checkExistingSession e)) s) = loading s"
  by (simp add: checkExistingSession_def comp_defs update_defs
      split: outcome.splits option.splits)

lemma perform_loading: "\<not> loading s \<Longrightarrow> \<not> loading (perform op s)"
  by (cases op)
     (simp_all add: perform_def trace_of_def signIn_exit signOut_exit
        checkExistingSession_loading)

lemma perform_all_loading: "\<not> loading s \<Longrightarrow> \<not> loading (perform_all ops s)"
  by (induction ops arbitrary: s) (simp_all add: perform_loading)

lemma startup_trace:
  "\<exists>calls. fst (startup e) =
      calls @ SetAuthState (no_updates\<lparr>p_isConfigured :=
                 Some (truthy (EXPO_PUBLIC_GOOGLE_WEB_CLIENT_ID e)
                       \<and> configure_outcome e = Resolves ())\<rparr>)
            # fst (checkExistingSession e)
    \<and> filter writes_isConfigured calls = [] \<and> (\<forall>s. run calls s = s)"
proof -
  obtain t r where c: "checkExistingSession e = (t, r)"
    by (cases "checkExistingSession e")
  show ?thesis
    by (cases "configure_outcome e")
       (simp_all add: startup_def configureGoogleSignIn_def c comp_defs)
qed

lemma mount_eq:
  "mount e = run (fst (checkExistingSession e))
     (initialAuthState\<lparr>isConfigured := truthy (EXPO_PUBLIC_GOOGLE_WEB_CLIENT_ID e)
                                          \<and> configure_outcome e = Resolves ()\<rparr>)"
proof -
  obtain calls where tr: "fst (startup e) =
      calls @ SetAuthState (no_updates\<lparr>p_isConfigured :=
                 Some (truthy (EXPO_PUBLIC_GOOGLE_WEB_CLIENT_ID e)
                       \<and> configure_outcome e = Resolves ())\<rparr>)
            # fst (checkExistingSession e)"
    and quiet: "\<forall>s. run calls s = s"
    using startup_trace [of e] by blast
  show ?thesis
    by (simp add: mount_def tr run_append quiet update_defs initialAuthState_def)
qed

lemma mount_loading: "\<not> loading (mount e)"
  by (simp add: mount_eq checkExistingSession_loading initialAuthState_def)

lemma signOut_try_outcome:
  "snd (signOut_try e) =
     (case supabase_signOut_outcome e of
        Rejects thr \<Rightarrow> Inl thr
      | Resolves None \<Rightarrow> Inr ()
      | Resolves (Some message) \<Rightarrow> Inl (Error (''Sign-out failed: '' @ message)))"
  by (simp add: signOut_try_def comp_defs split: outcome.splits option.splits)

text \<open>A \<open>try\<close> block that completes has made every call and committed the user.\<close>

lemma signIn_try_success:
  assumes "snd (signIn_try e a) = Inr ()"
  shows "\<exists>r d token response u.
           google_signIn_outcome e = Resolves r \<and> data r = Some d \<and> idToken d = Some token
           \<and> signInWithIdToken_outcome e ''google'' token = Resolves response
           \<and> response_error response = None \<and> response_user response = Some u
           \<and> fst (signIn_try e a) =
               [SetAuthState entry_update, GoogleSignin_hasPlayServices, GoogleSignin_signOut,
                GoogleSignin_signIn, supabase_auth_signInWithIdToken ''google'' token,
                SetAuthState (no_updates\<lparr>p_user := Some (Some (userData u (signIn_user d))),
                                           p_error := Some None\<rparr>)]"
  using assms
  by (auto simp: signIn_try_def comp_defs entry_update_def
      split: if_splits outcome.splits option.splits)

section \<open>Who writes \<open>isConfigured\<close>\<close>

lemma trace_of_keeps_isConfigured: "filter writes_isConfigured (trace_of op s) = []"
proof (cases op)
  case (SignIn e)
  then show ?thesis
    by (simp add: trace_of_def signIn_defs comp_defs no_updates_def Let_def
        split: outcome.splits option.splits)
next
  case (SignOut e)
  then show ?thesis
    by (simp add: trace_of_def signOut_defs comp_defs no_updates_def Let_def
        split: outcome.splits option.splits)
next
  case (CheckExistingSession e)
  then show ?thesis
    by (simp add: trace_of_def checkExistingSession_def comp_defs no_updates_def
        split: outcome.splits option.splits)
qed

lemma run_keeps_isConfigured:
  "filter writes_isConfigured t = [] \<Longrightarrow> isConfigured (run t s) = isConfigured s"
proof (induction t arbitrary: s)
  case Nil
  then show ?case by simp
next
  case (Cons ev evs)
  then have "\<not> writes_isConfigured ev" and "filter writes_isConfigured evs = []"
    by (simp_all split: if_splits)
  moreover from \<open>\<not> writes_isConfigured ev\<close> have "isConfigured (step ev s) = isConfigured s"
    by (cases ev) (auto simp: spread_def)
  ultimately show ?case
    using Cons.IH by simp
qed

lemma perform_keeps_isConfigured: "isConfigured (perform op s) = isConfigured s"
  by (simp add: perform_def run_keeps_isConfigured trace_of_keeps_isConfigured)

lemma perform_all_keeps_isConfigured: "isConfigured (perform_all ops s) = isConfigured s"
  by (induction ops arbitrary: s) (simp_all add: perform_keeps_isConfigured)

lemma startup_writes_isConfigured_once:
  "length (filter writes_isConfigured (fst (startup e))) = 1"
proof -
  obtain calls where tr: "fst (startup e) =
      calls @ SetAuthState (no_updates\<lparr>p_isConfigured :=
                 Some (truthy (EXPO_PUBLIC_GOOGLE_WEB_CLIENT_ID e)
                       \<and> configure_outcome e = Resolves ())\<rparr>)
            # fst (checkExistingSession e)"
    and quiet: "filter writes_isConfigured calls = []"
    using startup_trace [of e] by blast
  have "filter writes_isConfigured (fst (checkExistingSession e)) = []"
    using trace_of_keeps_isConfigured [of "CheckExistingSession e"]
    by (simp add: trace_of_def)
  then show ?thesis
    by (simp add: tr quiet)
qed

section \<open>The \<open>error\<close> field over an operation\<close>

lemma signIn_try_entry: "take 1 (fst (signIn_try e a)) = [SetAuthState entry_update]"
  by (simp add: signIn_try_def comp_defs entry_update_def
      split: outcome.splits option.splits)

lemma signIn_try_in_flight:
  "list_all (\<lambda>st. error st = None \<and> loading st) (states (fst (signIn_try e a)) s)"
  by (simp add: signIn_try_def comp_defs update_defs
      split: outcome.splits option.splits)

lemma signIn_try_prefix:
  "take (length (fst (signIn_try e a))) (fst (signInWithGoogle e a)) = fst (signIn_try e a)"
proof (cases "snd (signIn_try e a)")
  case (Inl thr)
  show ?thesis by (simp add: signInWithGoogle_failure [OF Inl])
next
  case (Inr u)
  then have ok: "snd (signIn_try e a) = Inr ()" by simp
  show ?thesis by (simp add: signInWithGoogle_success [OF ok])
qed

lemma list_all_states_run:
  assumes "list_all P (states t s)" and "t \<noteq> []"
  shows "P (run t s)"
proof -
  have "states t s \<noteq> []"
    using assms(2) by (simp add: states_Nil_iff)
  then have "last (states t s) \<in> set (states t s)"
    by (rule last_in_set)
  then have "P (last (states t s))"
    using assms(1) by (simp add: list_all_iff)
  then show ?thesis
    by (simp add: last_states [OF assms(2)])
qed

lemma signIn_final_error:
  "error (run (fst (signInWithGoogle e a)) s) =
     (case snd (signIn_try e a) of
        Inl thr \<Rightarrow> Some (signIn_errorMessage e thr)
      | Inr _ \<Rightarrow> None)"
proof (cases "snd (signIn_try e a)")
  case (Inl thr)
  show ?thesis by (simp add: signIn_failure_state [OF Inl] Inl)
next
  case (Inr u)
  then have ok: "snd (signIn_try e a) = Inr ()" by simp
  have "fst (signIn_try e a) \<noteq> []"
    using signIn_try_entry [of e a] by auto
  with signIn_try_in_flight [of e a s]
  have "error (run (fst (signIn_try e a)) s) = None \<and> loading (run (fst (signIn_try e a)) s)"
    by (rule list_all_states_run)
  then show ?thesis
    by (simp add: signInWithGoogle_success [OF ok] ok run_append update_defs)
qed

lemma signOut_try_entry: "take 1 (fst (signOut_try e)) = [SetAuthState entry_update]"
  by (simp add: signOut_try_def comp_defs entry_update_def
      split: outcome.splits option.splits)

lemma signOut_try_in_flight:
  "list_all (\<lambda>st. error st = None \<and> loading st) (states (fst (signOut_try e)) s)"
  by (simp add: signOut_try_def comp_defs update_defs
      split: outcome.splits option.splits)

lemma signOut_try_prefix:
  "take (length (fst (signOut_try e))) (fst (signOut e)) = fst (signOut_try e)"
  by (cases "signOut_try e")
     (simp add: signOut_def signOut_catch_def comp_defs Let_def split: sum.splits)

lemma signOut_final_error:
  "error (run (fst (signOut e)) s) =
     (case snd (signOut_try e) of
        Inl thr \<Rightarrow> Some (signOut_errorMessage thr)
      | Inr _ \<Rightarrow> None)"
  by (simp add: signOut_defs comp_defs update_defs Let_def
      split: outcome.splits option.splits)

section \<open>Tokens of a name\<close>

lemmas js_string_defs = getInitials_def trim_def isWhiteSpace_def toUpperCase_def
  toUpperCase_char_def template_index0_def charAt0_def

text \<open>
  \<open>split\<close> always yields a token; the first token is what stands before the first
  separator, the last what stands behind the last one.
\<close>

lemma split_not_Nil: "split sep s \<noteq> []"
  by (induction s) (auto split: list.splits)

lemma hd_split: "hd (split sep s) = takeWhile (\<lambda>c. c \<noteq> sep) s"
  by (induction s) (auto split: list.splits simp: split_not_Nil)

lemma split_without_sep: "sep \<notin> set s \<Longrightarrow> split sep s = [s]"
  by (induction s) (auto split: list.splits)

lemma length_split: "sep \<in> set s \<Longrightarrow> 2 \<le> length (split sep s)"
  by (induction s) (auto split: list.splits simp: split_not_Nil)

lemma takeWhile_snoc:
  "takeWhile P (xs @ [x]) =
     (if \<forall>y\<in>set xs. P y then xs @ (if P x then [x] else []) else takeWhile P xs)"
  by (induction xs) auto

lemma last_split: "last (split sep s) = rev (takeWhile (\<lambda>c. c \<noteq> sep) (rev s))"
proof (induction s)
  case Nil
  then show ?case by simp
next
  case (Cons c cs)
  show ?case
  proof (cases "c = sep")
    case True
    then show ?thesis
      using Cons.IH by (auto simp: split_not_Nil takeWhile_snoc)
  next
    case False
    show ?thesis
    proof (cases "sep \<in> set cs")
      case True
      then have "2 \<le> length (split sep cs)"
        by (rule length_split)
      then obtain t u us where "split sep cs = t # u # us"
        by (cases "split sep cs"; cases "tl (split sep cs)") auto
      with Cons.IH False True show ?thesis
        by (auto simp: takeWhile_snoc)
    next
      case notin: False
      then have "split sep cs = [cs]"
        by (rule split_without_sep)
      with False notin show ?thesis
        by (auto simp: takeWhile_snoc)
    qed
  qed
qed

lemma trim_ends:
  "trim s = [] \<or> (\<not> isWhiteSpace (hd (trim s)) \<and> \<not> isWhiteSpace (last (trim s)))"
proof -
  let ?m = "dropWhile isWhiteSpace s"
  let ?k = "dropWhile isWhiteSpace (rev ?m)"
  show ?thesis
  proof (cases "?k = []")
    case True
    then show ?thesis by (simp add: trim_def)
  next
    case False
    then have k: "\<not> isWhiteSpace (hd ?k)"
      by (rule hd_dropWhile)
    have m: "?m \<noteq> []"
    proof
      assume empty: "?m = []"
      have "?k = dropWhile isWhiteSpace (rev [])"
        by (simp only: empty)
      with False show False by simp
    qed
    then have hm: "\<not> isWhiteSpace (hd ?m)"
      by (rule hd_dropWhile)
    have "last ?k = last (rev ?m)"
      using False by (metis last_appendR takeWhile_dropWhile_id)
    then have "last ?k = hd ?m"
      using m by (simp add: last_rev)
    with hm k False show ?thesis
      by (simp add: trim_def hd_rev last_rev)
  qed
qed

lemma getInitials_two_tokens:
  assumes "n \<noteq> []" and "CHR '' '' \<in> set (trim n)"
  shows "hd (split CHR '' '' (trim n)) \<noteq> [] \<and> last (split CHR '' '' (trim n)) \<noteq> []
         \<and> getInitials (Some n) =
             [toUpperCase_char (hd (hd (split CHR '' '' (trim n)))),
              toUpperCase_char (hd (last (split CHR '' '' (trim n))))]"
proof -
  let ?t = "trim n"
  let ?names = "split CHR '' '' ?t"
  have ne: "?t \<noteq> []"
    using assms(2) by auto
  with trim_ends [of n] have ends: "\<not> isWhiteSpace (hd ?t)" "\<not> isWhiteSpace (last ?t)"
    by auto
  have space: "isWhiteSpace CHR '' ''"
    by (simp add: isWhiteSpace_def)
  from ends space have "hd ?t \<noteq> CHR '' ''" and "last ?t \<noteq> CHR '' ''"
    by auto
  then have tw: "takeWhile (\<lambda>c. c \<noteq> CHR '' '') ?t \<noteq> []"
    and tw_rev: "takeWhile (\<lambda>c. c \<noteq> CHR '' '') (rev ?t) \<noteq> []"
    using ne by (cases ?t, simp_all) (cases "rev ?t", simp_all add: last_rev [symmetric])
  have first: "hd ?names \<noteq> []"
    using tw by (simp add: hd_split)
  have lst: "last ?names \<noteq> []"
    using tw_rev by (simp add: last_split)
  have len: "2 \<le> length ?names"
    using assms(2) by (rule length_split)
  then have idx: "?names ! 0 = hd ?names" "?names ! (length ?names - 1) = last ?names"
    by (simp_all add: hd_conv_nth last_conv_nth split_not_Nil)
  from first lst have "template_index0 (hd ?names) = [hd (hd ?names)]"
    and "template_index0 (last ?names) = [hd (last ?names)]"
    by (simp_all add: template_index0_def split: list.splits)
  with assms(1) len idx first lst show ?thesis
    by (simp add: getInitials_def Let_def toUpperCase_def)
qed

lemma getInitials_one_token:
  assumes "n \<noteq> []" and "CHR '' '' \<notin> set (trim n)"
  shows "getInitials (Some n) = [toUpperCase_char (hd n)]"
  using assms
  by (cases n) (simp_all add: getInitials_def split_without_sep toUpperCase_def charAt0_def)

section \<open>The claims\<close>

text \<open>
  C1. During \<open>signInWithGoogle\<close>, an error of the provider-side sign-out that precedes the
  fresh sign-in is said to be swallowed. In the code \<open>await GoogleSignin.signOut()\<close>
  stands unguarded in the \<open>try\<close> block, so its rejection reaches the \<open>catch\<close>: with
  every other collaborator answering well, the provider sign-in is never called, the
  message of the rejection becomes \<open>error\<close>, the alert is shown and no user is committed.
  The same call in \<open>signOut\<close> has a \<open>try\<close>/\<open>catch\<close> of its own and only warns.
\<close>

theorem C1_reset_failure_aborts_signIn:
  "signInWithGoogle (example_env\<lparr>google_signOut_outcome := Rejects (Error ''SIGN_OUT_FAILED'')\<rparr>)
       configured_state =
     ([SetAuthState entry_update, GoogleSignin_hasPlayServices, GoogleSignin_signOut,
       console_error,
       SetAuthState (no_updates\<lparr>p_error := Some (Some ''SIGN_OUT_FAILED'')\<rparr>),
       Alert_alert ''Sign-In Failed'' ''SIGN_OUT_FAILED'',
       SetAuthState exit_update], Inr ())
   \<and> perform (SignIn (example_env\<lparr>google_signOut_outcome := Rejects (Error ''SIGN_OUT_FAILED'')\<rparr>))
       configured_state =
     configured_state\<lparr>error := Some ''SIGN_OUT_FAILED''\<rparr>
   \<and> fst (signOut (example_env\<lparr>google_signOut_outcome := Rejects (Error ''SIGN_OUT_FAILED'')\<rparr>)) =
     [SetAuthState entry_update, GoogleSignin_signOut, console_warn, supabase_auth_signOut,
      SetAuthState (no_updates\<lparr>p_user := Some None\<rparr>), SetAuthState exit_update]"
  by (simp add: signInWithGoogle_def signIn_try_def signIn_catch_def signIn_errorMessage_def
      signOut_def signOut_try_def perform_def trace_of_def comp_defs update_defs example_defs
      Let_def)

text \<open>
  C2, as stated: a user without \<open>displayName\<close> and with the email \<open>ada@x.com\<close> gets the
  initials \<open>A\<close>. The placeholder calls \<open>getInitials(user.displayName)\<close>, which never
  sees the email: the initials are \<open>?\<close>.
\<close>

theorem C2_initials_from_email_counterexample:
  "imageContainer \<lparr>id_User = ''u1'', email = ''ada@x.com'', displayName = None,
       photoURL = None, provider = Some ''google''\<rparr> = PlaceholderText ''?''
   \<and> imageContainer \<lparr>id_User = ''u1'', email = ''ada@x.com'', displayName = None,
       photoURL = None, provider = Some ''google''\<rparr> \<noteq> PlaceholderText ''A''"
  by (simp add: imageContainer_def truthy_def getInitials_def)

text \<open>
  C2, amended: for the display name \<open>Ada Lovelace\<close> the initials of the placeholder are
  \<open>AL\<close>, and so they are for \<open>ada lovelace\<close>; for \<open>grace brewster murray hopper\<close> they are
  \<open>GH\<close>. In general, for an ASCII name whose trimmed form holds a space, they are the
  first letter of the first token and the first letter of the last token, in upper case.
  For a user without display name they are the literal \<open>?\<close>, whatever the email is.
\<close>

theorem C2_initials:
  "getInitials (Some ''Ada Lovelace'') = ''AL''
   \<and> getInitials (Some ''ada lovelace'') = ''AL''
   \<and> getInitials (Some ''grace brewster murray hopper'') = ''GH''
   \<and> imageContainer (u\<lparr>displayName := Some ''Ada Lovelace'', photoURL := None\<rparr>) =
       PlaceholderText ''AL''
   \<and> (isASCII n \<and> n \<noteq> [] \<and> CHR '' '' \<in> set (trim n) \<longrightarrow>
        hd (split CHR '' '' (trim n)) \<noteq> [] \<and> last (split CHR '' '' (trim n)) \<noteq> []
        \<and> getInitials (Some n) =
            [toUpperCase_char (hd (hd (split CHR '' '' (trim n)))),
             toUpperCase_char (hd (last (split CHR '' '' (trim n))))])
   \<and> getInitials None = ''?''
   \<and> imageContainer (u\<lparr>displayName := None, photoURL := None\<rparr>) = PlaceholderText ''?''"
proof -
  have concrete: "getInitials (Some ''Ada Lovelace'') = ''AL''"
    by (simp add: js_string_defs)
  have lower: "getInitials (Some ''ada lovelace'') = ''AL''"
    by code_simp
  have middle: "getInitials (Some ''grace brewster murray hopper'') = ''GH''"
    by code_simp
  have absent: "getInitials None = ''?''"
    by (simp add: getInitials_def)
  show ?thesis
    using getInitials_two_tokens [of n]
    by (simp add: concrete lower middle absent imageContainer_def truthy_def)
qed

theorem C2_initials_witness:
  "isASCII ''ada lovelace'' \<and> ''ada lovelace'' \<noteq> [] \<and> CHR '' '' \<in> set (trim ''ada lovelace'')
   \<and> hd (split CHR '' '' (trim ''ada lovelace'')) = ''ada''
   \<and> last (split CHR '' '' (trim ''ada lovelace'')) = ''lovelace''
   \<and> getInitials (Some ''ada lovelace'') = [CHR ''A'', CHR ''L'']"
proof -
  have h: "isASCII ''ada lovelace'' \<and> ''ada lovelace'' \<noteq> []
           \<and> CHR '' '' \<in> set (trim ''ada lovelace'')"
    by (simp add: isASCII_def trim_def isWhiteSpace_def)
  have tokens: "split CHR '' '' (trim ''ada lovelace'') = [''ada'', ''lovelace'']"
    by (simp add: trim_def isWhiteSpace_def)
  from h C2_initials [of ada_user "''ada lovelace''"]
  have "getInitials (Some ''ada lovelace'') =
          [toUpperCase_char (hd (hd (split CHR '' '' (trim ''ada lovelace'')))),
           toUpperCase_char (hd (last (split CHR '' '' (trim ''ada lovelace''))))]"
    by blast
  moreover have "toUpperCase_char CHR ''a'' = CHR ''A''"
    and "toUpperCase_char CHR ''l'' = CHR ''L''"
    by code_simp+
  ultimately show ?thesis
    using h by (simp add: tokens)
qed

text \<open>
  C3. On every failure path of \<open>signInWithGoogle\<close>, that is whenever its \<open>try\<close> block
  throws (\<open>signIn_try_outcome\<close> lists the places), the state after the operation is the
  state before it with \<open>loading\<close> false and \<open>error\<close> the message of the failure: \<open>user\<close>
  is what it was.
\<close>

theorem C3_failed_signIn_keeps_user:
  assumes "snd (signIn_try e a) = Inl thr"
  shows "run (fst (signInWithGoogle e a)) s =
           s\<lparr>loading := False, error := Some (signIn_errorMessage e thr)\<rparr>
         \<and> user (run (fst (signInWithGoogle e a)) s) = user s"
  by (simp add: signIn_failure_state [OF assms])

theorem C3_failed_signIn_keeps_user_witness:
  "snd (signIn_try (example_env\<lparr>Platform_OS := ''ios''\<rparr>) configured_state) =
     Inl (Error ''Google Sign-In is currently only available on Android'')
   \<and> run (fst (signInWithGoogle (example_env\<lparr>Platform_OS := ''ios''\<rparr>) configured_state))
        signedIn_state =
     signedIn_state\<lparr>error := Some ''Google Sign-In is currently only available on Android''\<rparr>
   \<and> snd (signIn_try (example_env\<lparr>signInWithIdToken_outcome :=
          \<lambda>provider token. Resolves \<lparr>response_user = None,
                                     response_error = Some ''invalid token''\<rparr>\<rparr>)
        configured_state) =
     Inl (Error ''Supabase authentication failed: invalid token'')
   \<and> run (fst (signInWithGoogle (example_env\<lparr>signInWithIdToken_outcome :=
          \<lambda>provider token. Resolves \<lparr>response_user = None,
                                     response_error = Some ''invalid token''\<rparr>\<rparr>)
        configured_state)) configured_state =
     configured_state\<lparr>error := Some ''Supabase authentication failed: invalid token''\<rparr>"
proof -
  let ?ios = "example_env\<lparr>Platform_OS := ''ios''\<rparr>"
  let ?rejecting = "example_env\<lparr>signInWithIdToken_outcome :=
          \<lambda>provider token. Resolves \<lparr>response_user = None,
                                     response_error = Some ''invalid token''\<rparr>\<rparr>"
  have h1: "snd (signIn_try ?ios configured_state) =
     Inl (Error ''Google Sign-In is currently only available on Android'')"
    by (simp add: signIn_try_outcome example_defs)
  have h2: "snd (signIn_try ?rejecting configured_state) =
     Inl (Error ''Supabase authentication failed: invalid token'')"
    by (simp add: signIn_try_outcome example_defs truthy_def)
  show ?thesis
    using h1 h2 C3_failed_signIn_keeps_user [OF h1, of signedIn_state]
      C3_failed_signIn_keeps_user [OF h2, of configured_state]
    by (simp add: signIn_errorMessage_def signedIn_state_def configured_state_def)
qed

text \<open>
  C4. Each of \<open>signInWithGoogle\<close> and \<open>signOut\<close> starts with the update
  \<open>{ loading: true, error: null }\<close>; in every state between that update and the last
  one \<open>loading\<close> is true; the last update leaves \<open>loading\<close> false; and the operation
  returns, whatever the collaborators answer. At rest, after mount and after any sequence
  of whole operations, \<open>loading\<close> is false.
\<close>

theorem C4_loading_spans_operation:
  "take 1 (fst (signInWithGoogle e a)) = [SetAuthState entry_update]
   \<and> list_all loading (butlast (states (fst (signInWithGoogle e a)) s))
   \<and> last (states (fst (signInWithGoogle e a)) s) = run (fst (signInWithGoogle e a)) s
   \<and> \<not> loading (run (fst (signInWithGoogle e a)) s)
   \<and> snd (signInWithGoogle e a) = Inr ()
   \<and> take 1 (fst (signOut e)) = [SetAuthState entry_update]
   \<and> list_all loading (butlast (states (fst (signOut e)) s))
   \<and> last (states (fst (signOut e)) s) = run (fst (signOut e)) s
   \<and> \<not> loading (run (fst (signOut e)) s)
   \<and> snd (signOut e) = Inr ()
   \<and> \<not> loading (perform_all ops (mount e0))"
proof -
  have "fst (signInWithGoogle e a) \<noteq> []"
    using signIn_entry [of e a] by auto
  then have in_last: "last (states (fst (signInWithGoogle e a)) s) = run (fst (signInWithGoogle e a)) s"
    by (rule last_states)
  have "fst (signOut e) \<noteq> []"
    using signOut_entry [of e] by auto
  then have out_last: "last (states (fst (signOut e)) s) = run (fst (signOut e)) s"
    by (rule last_states)
  have rest: "\<not> loading (perform_all ops (mount e0))"
    by (rule perform_all_loading) (rule mount_loading)
  show ?thesis
    using in_last out_last rest signIn_entry [of e a] signOut_entry [of e]
    by (simp add: signIn_in_flight signIn_exit signIn_returns
        signOut_in_flight signOut_exit signOut_returns)
qed

text \<open>
  C5. When the backend sign-out resolves without error, \<open>signOut\<close> succeeds and leaves
  \<open>user\<close> null, also when the provider-side sign-out rejects: that rejection is
  answered by \<open>console.warn\<close> alone. When the backend sign-out resolves with an error,
  \<open>user\<close> is what it was and \<open>error\<close> is \<open>Sign-out failed:\<close> followed by the message
  of the backend. When the backend call rejects instead, \<open>user\<close> is what it was as well
  and \<open>error\<close> is the message of the thrown \<open>Error\<close>, or \<open>Sign-out failed\<close> for another
  thrown value.
\<close>

theorem C5_signOut:
  "(supabase_signOut_outcome e = Resolves None \<longrightarrow>
      snd (signOut_try e) = Inr ()
      \<and> run (fst (signOut e)) s = s\<lparr>user := None, loading := False, error := None\<rparr>)
   \<and> (supabase_signOut_outcome e = Resolves None \<and> google_signOut_outcome e = Rejects thr \<longrightarrow>
      fst (signOut e) =
        [SetAuthState entry_update, GoogleSignin_signOut, console_warn, supabase_auth_signOut,
         SetAuthState (no_updates\<lparr>p_user := Some None\<rparr>), SetAuthState exit_update])
   \<and> (supabase_signOut_outcome e = Resolves (Some message) \<longrightarrow>
      snd (signOut_try e) = Inl (Error (''Sign-out failed: '' @ message))
      \<and> run (fst (signOut e)) s =
          s\<lparr>loading := False, error := Some (''Sign-out failed: '' @ message)\<rparr>)
   \<and> (supabase_signOut_outcome e = Rejects thr' \<longrightarrow>
      run (fst (signOut e)) s = s\<lparr>loading := False, error := Some (signOut_errorMessage thr')\<rparr>)"
  by (simp add: signOut_defs signOut_errorMessage_def comp_defs update_defs Let_def
      split: outcome.splits)

theorem C5_signOut_witness:
  "supabase_signOut_outcome (example_env\<lparr>google_signOut_outcome := Rejects OtherValue\<rparr>)
     = Resolves None
   \<and> google_signOut_outcome (example_env\<lparr>google_signOut_outcome := Rejects OtherValue\<rparr>)
     = Rejects OtherValue
   \<and> user (run (fst (signOut (example_env\<lparr>google_signOut_outcome := Rejects OtherValue\<rparr>)))
        signedIn_state) = None
   \<and> fst (signOut (example_env\<lparr>google_signOut_outcome := Rejects OtherValue\<rparr>)) =
        [SetAuthState entry_update, GoogleSignin_signOut, console_warn, supabase_auth_signOut,
         SetAuthState (no_updates\<lparr>p_user := Some None\<rparr>), SetAuthState exit_update]
   \<and> supabase_signOut_outcome
        (example_env\<lparr>supabase_signOut_outcome := Resolves (Some ''network'')\<rparr>)
     = Resolves (Some ''network'')
   \<and> run (fst (signOut (example_env\<lparr>supabase_signOut_outcome := Resolves (Some ''network'')\<rparr>)))
        signedIn_state
     = signedIn_state\<lparr>error := Some ''Sign-out failed: network''\<rparr>
   \<and> supabase_signOut_outcome
        (example_env\<lparr>supabase_signOut_outcome := Rejects (Error ''offline'')\<rparr>)
     = Rejects (Error ''offline'')
   \<and> run (fst (signOut (example_env\<lparr>supabase_signOut_outcome := Rejects (Error ''offline'')\<rparr>)))
        signedIn_state
     = signedIn_state\<lparr>error := Some ''offline''\<rparr>"
proof -
  let ?e1 = "example_env\<lparr>google_signOut_outcome := Rejects OtherValue\<rparr>"
  let ?e2 = "example_env\<lparr>supabase_signOut_outcome := Resolves (Some ''network'')\<rparr>"
  let ?e3 = "example_env\<lparr>supabase_signOut_outcome := Rejects (Error ''offline'')\<rparr>"
  have h1: "supabase_signOut_outcome ?e1 = Resolves None"
    by (simp add: example_env_def)
  have h2: "google_signOut_outcome ?e1 = Rejects OtherValue"
    by simp
  have h3: "supabase_signOut_outcome ?e2 = Resolves (Some ''network'')"
    by simp
  have h4: "supabase_signOut_outcome ?e3 = Rejects (Error ''offline'')"
    by simp
  have r1: "run (fst (signOut ?e1)) signedIn_state =
              signedIn_state\<lparr>user := None, loading := False, error := None\<rparr>"
    using C5_signOut [of ?e1 signedIn_state OtherValue] h1 by blast
  have t1: "fst (signOut ?e1) =
        [SetAuthState entry_update, GoogleSignin_signOut, console_warn, supabase_auth_signOut,
         SetAuthState (no_updates\<lparr>p_user := Some None\<rparr>), SetAuthState exit_update]"
    using C5_signOut [of ?e1 signedIn_state OtherValue] h1 h2 by blast
  have r2: "run (fst (signOut ?e2)) signedIn_state =
              signedIn_state\<lparr>loading := False, error := Some (''Sign-out failed: '' @ ''network'')\<rparr>"
    using C5_signOut [of ?e2 signedIn_state _ "''network''"] h3 by blast
  have r3: "run (fst (signOut ?e3)) signedIn_state =
              signedIn_state\<lparr>loading := False, error := Some (signOut_errorMessage (Error ''offline''))\<rparr>"
    using C5_signOut [of ?e3 signedIn_state _ _ "Error ''offline''"] h4 by blast
  show ?thesis
    using h1 h2 h3 h4 r1 t1 r2 r3 by (simp add: signedIn_state_def signOut_errorMessage_def)
qed

text \<open>
  C6. When \<open>signInWithGoogle\<close> succeeds (its \<open>try\<close> block completes), Google has
  returned data with a token and Supabase a user for that token, and the state after the
  operation holds the user built from them: \<open>id\<close> is the one of the Supabase user; \<open>email\<close>
  is the email of the Supabase user when that is present and not empty, and the email of
  the Google profile otherwise; \<open>displayName\<close> and \<open>photoURL\<close> are name and photo of the
  Google profile (the empty string where it has none); \<open>provider\<close> is \<open>google\<close>; \<open>error\<close>
  is null and \<open>loading\<close> false.
\<close>

theorem C6_successful_signIn:
  assumes "snd (signIn_try e a) = Inr ()"
  shows "\<exists>r d token response u.
           google_signIn_outcome e = Resolves r \<and> data r = Some d \<and> idToken d = Some token
           \<and> signInWithIdToken_outcome e ''google'' token = Resolves response
           \<and> response_user response = Some u
           \<and> run (fst (signInWithGoogle e a)) s =
               s\<lparr>user := Some \<lparr>id_User = supabase_id u,
                                 email = (case supabase_email u of
                                            None \<Rightarrow> google_email (signIn_user d)
                                          | Some m \<Rightarrow>
                                              if m = [] then google_email (signIn_user d) else m),
                                 displayName = Some (case google_name (signIn_user d) of
                                                       None \<Rightarrow> [] | Some n \<Rightarrow> n),
                                 photoURL = Some (case google_photo (signIn_user d) of
                                                    None \<Rightarrow> [] | Some p \<Rightarrow> p),
                                 provider = Some ''google''\<rparr>,
                  loading := False, error := None\<rparr>"
proof -
  obtain r d token response u where
    g: "google_signIn_outcome e = Resolves r" "data r = Some d" "idToken d = Some token"
    and b: "signInWithIdToken_outcome e ''google'' token = Resolves response"
      "response_user response = Some u"
    and tr: "fst (signIn_try e a) =
               [SetAuthState entry_update, GoogleSignin_hasPlayServices, GoogleSignin_signOut,
                GoogleSignin_signIn, supabase_auth_signInWithIdToken ''google'' token,
                SetAuthState (no_updates\<lparr>p_user := Some (Some (userData u (signIn_user d))),
                                           p_error := Some None\<rparr>)]"
    using signIn_try_success [OF assms] by blast
  have built: "userData u (signIn_user d) =
      \<lparr>id_User = supabase_id u,
       email = (case supabase_email u of
                  None \<Rightarrow> google_email (signIn_user d)
                | Some m \<Rightarrow> if m = [] then google_email (signIn_user d) else m),
       displayName = Some (case google_name (signIn_user d) of None \<Rightarrow> [] | Some n \<Rightarrow> n),
       photoURL = Some (case google_photo (signIn_user d) of None \<Rightarrow> [] | Some p \<Rightarrow> p),
       provider = Some ''google''\<rparr>"
    by (simp add: userData_def or_string_def split: option.splits)
  have "run (fst (signInWithGoogle e a)) s =
          s\<lparr>user := Some (userData u (signIn_user d)), loading := False, error := None\<rparr>"
    by (simp add: signInWithGoogle_success [OF assms] tr update_defs)
  then show ?thesis
    using g b by (simp add: built)
qed

theorem C6_successful_signIn_witness:
  "snd (signIn_try example_env configured_state) = Inr ()
   \<and> run (fst (signInWithGoogle example_env configured_state))
        (configured_state\<lparr>error := Some ''Sign-in was cancelled''\<rparr>) =
      signedIn_state
   \<and> snd (signIn_try (example_env\<lparr>signInWithIdToken_outcome :=
          \<lambda>provider token. Resolves
            \<lparr>response_user = Some \<lparr>supabase_id = ''u1'',
                                    supabase_email = Some ''ada@backend.example'',
                                    user_metadata = None\<rparr>,
             response_error = None\<rparr>\<rparr>) configured_state) = Inr ()
   \<and> user (run (fst (signInWithGoogle (example_env\<lparr>signInWithIdToken_outcome :=
          \<lambda>provider token. Resolves
            \<lparr>response_user = Some \<lparr>supabase_id = ''u1'',
                                    supabase_email = Some ''ada@backend.example'',
                                    user_metadata = None\<rparr>,
             response_error = None\<rparr>\<rparr>) configured_state)) configured_state) =
      Some \<lparr>id_User = ''u1'', email = ''ada@backend.example'',
            displayName = Some ''Ada Lovelace'', photoURL = Some [], provider = Some ''google''\<rparr>
   \<and> snd (signIn_try (example_env\<lparr>signInWithIdToken_outcome :=
          \<lambda>provider token. Resolves
            \<lparr>response_user = Some \<lparr>supabase_id = ''u1'', supabase_email = None,
                                    user_metadata = None\<rparr>,
             response_error = None\<rparr>\<rparr>) configured_state) = Inr ()
   \<and> user (run (fst (signInWithGoogle (example_env\<lparr>signInWithIdToken_outcome :=
          \<lambda>provider token. Resolves
            \<lparr>response_user = Some \<lparr>supabase_id = ''u1'', supabase_email = None,
                                    user_metadata = None\<rparr>,
             response_error = None\<rparr>\<rparr>) configured_state)) configured_state) =
      Some \<lparr>id_User = ''u1'', email = ''ada@x.com'',
            displayName = Some ''Ada Lovelace'', photoURL = Some [], provider = Some ''google''\<rparr>"
proof -
  let ?backend = "example_env\<lparr>signInWithIdToken_outcome :=
          \<lambda>provider token. Resolves
            \<lparr>response_user = Some \<lparr>supabase_id = ''u1'',
                                    supabase_email = Some ''ada@backend.example'',
                                    user_metadata = None\<rparr>,
             response_error = None\<rparr>\<rparr>"
  let ?no_email = "example_env\<lparr>signInWithIdToken_outcome :=
          \<lambda>provider token. Resolves
            \<lparr>response_user = Some \<lparr>supabase_id = ''u1'', supabase_email = None,
                                    user_metadata = None\<rparr>,
             response_error = None\<rparr>\<rparr>"
  have h1: "snd (signIn_try example_env configured_state) = Inr ()"
    by (simp add: signIn_try_outcome example_defs truthy_def)
  have h2: "snd (signIn_try ?backend configured_state) = Inr ()"
    by (simp add: signIn_try_outcome example_defs truthy_def)
  have h3: "snd (signIn_try ?no_email configured_state) = Inr ()"
    by (simp add: signIn_try_outcome example_defs truthy_def)
  have r1: "run (fst (signInWithGoogle example_env configured_state))
        (configured_state\<lparr>error := Some ''Sign-in was cancelled''\<rparr>) = signedIn_state"
    using C6_successful_signIn [OF h1, of "configured_state\<lparr>error := Some ''Sign-in was cancelled''\<rparr>"]
    by (auto simp: example_defs)
  have r2: "user (run (fst (signInWithGoogle ?backend configured_state)) configured_state) =
      Some \<lparr>id_User = ''u1'', email = ''ada@backend.example'',
            displayName = Some ''Ada Lovelace'', photoURL = Some [], provider = Some ''google''\<rparr>"
    using C6_successful_signIn [OF h2, of configured_state]
    by (auto simp: example_defs)
  have r3: "user (run (fst (signInWithGoogle ?no_email configured_state)) configured_state) =
      Some \<lparr>id_User = ''u1'', email = ''ada@x.com'',
            displayName = Some ''Ada Lovelace'', photoURL = Some [], provider = Some ''google''\<rparr>"
    using C6_successful_signIn [OF h3, of configured_state]
    by (auto simp: example_defs)
  show ?thesis
    using h1 h2 h3 r1 r2 r3 by simp
qed

text \<open>
  C7. When the provider sign-in resolves with data whose \<open>idToken\<close> is missing or empty
  (the steps before it having passed), \<open>signInWithGoogle\<close> makes no call to Supabase:
  after \<open>GoogleSignin.signIn\<close> come the error log, the update of \<open>error\<close> to
  \<open>No ID token received from Google\<close>, the alert and the last update. \<open>user\<close> is
  what it was.
\<close>

theorem C7_missing_idToken:
  assumes "Platform_OS e = ''android''" and "isConfigured a"
    and "hasPlayServices_outcome e = Resolves ()"
    and "google_signOut_outcome e = Resolves ()"
    and "google_signIn_outcome e = Resolves r" and "data r = Some d"
    and "\<not> truthy (idToken d)"
  shows "signInWithGoogle e a =
           ([SetAuthState entry_update, GoogleSignin_hasPlayServices, GoogleSignin_signOut,
             GoogleSignin_signIn, console_error,
             SetAuthState (no_updates\<lparr>p_error := Some (Some ''No ID token received from Google'')\<rparr>),
             Alert_alert ''Sign-In Failed'' ''No ID token received from Google'',
             SetAuthState exit_update], Inr ())
         \<and> run (fst (signInWithGoogle e a)) s =
             s\<lparr>loading := False, error := Some ''No ID token received from Google''\<rparr>"
  using assms
  by (simp add: signIn_defs signIn_errorMessage_def comp_defs update_defs truthy_def Let_def
      split: option.splits)

theorem C7_missing_idToken_witness:
  "Platform_OS (example_env\<lparr>google_signIn_outcome :=
       Resolves \<lparr>data = Some \<lparr>signIn_user = ada_google, idToken = None\<rparr>\<rparr>\<rparr>) = ''android''
   \<and> isConfigured configured_state
   \<and> \<not> truthy (idToken \<lparr>signIn_user = ada_google, idToken = None\<rparr>)
   \<and> signInWithGoogle (example_env\<lparr>google_signIn_outcome :=
       Resolves \<lparr>data = Some \<lparr>signIn_user = ada_google, idToken = None\<rparr>\<rparr>\<rparr>) configured_state =
       ([SetAuthState entry_update, GoogleSignin_hasPlayServices, GoogleSignin_signOut,
         GoogleSignin_signIn, console_error,
         SetAuthState (no_updates\<lparr>p_error := Some (Some ''No ID token received from Google'')\<rparr>),
         Alert_alert ''Sign-In Failed'' ''No ID token received from Google'',
         SetAuthState exit_update], Inr ())
   \<and> run (fst (signInWithGoogle (example_env\<lparr>google_signIn_outcome :=
       Resolves \<lparr>data = Some \<lparr>signIn_user = ada_google, idToken = None\<rparr>\<rparr>\<rparr>) configured_state))
         configured_state =
       \<lparr>user = None, loading = False, error = Some ''No ID token received from Google'',
        isConfigured = True\<rparr>"
proof -
  let ?d = "\<lparr>signIn_user = ada_google, idToken = None\<rparr>"
  let ?r = "\<lparr>data = Some ?d\<rparr>"
  let ?e = "example_env\<lparr>google_signIn_outcome := Resolves ?r\<rparr>"
  have h1: "Platform_OS ?e = ''android''"
    and h3: "hasPlayServices_outcome ?e = Resolves ()"
    and h4: "google_signOut_outcome ?e = Resolves ()"
    by (simp_all add: example_env_def)
  have h2: "isConfigured configured_state"
    by (simp add: configured_state_def)
  have h5: "google_signIn_outcome ?e = Resolves ?r" and h6: "data ?r = Some ?d"
    by simp_all
  have h7: "\<not> truthy (idToken ?d)"
    by (simp add: truthy_def)
  show ?thesis
    using h1 h2 h7 C7_missing_idToken [OF h1 h2 h3 h4 h5 h6 h7, of configured_state]
    by (simp add: configured_state_def update_defs)
qed

text \<open>
  C8. The state at mount is \<open>user\<close> null, \<open>loading\<close> false, \<open>error\<close> null,
  \<open>isConfigured\<close> false. The startup effect assigns \<open>isConfigured\<close> in exactly one
  update, to the result of \<open>configureGoogleSignIn\<close>. No update of \<open>signInWithGoogle\<close>,
  \<open>signOut\<close> or \<open>checkExistingSession\<close> has the key \<open>isConfigured\<close>, so every
  operation, and every sequence of operations, leaves the flag as it found it.
\<close>

theorem C8_isConfigured_set_once:
  "initialAuthState = \<lparr>user = None, loading = False, error = None, isConfigured = False\<rparr>
   \<and> length (filter writes_isConfigured (fst (startup e))) = 1
   \<and> isConfigured (mount e) =
       (truthy (EXPO_PUBLIC_GOOGLE_WEB_CLIENT_ID e) \<and> configure_outcome e = Resolves ())
   \<and> filter writes_isConfigured (fst (signInWithGoogle e' a)) = []
   \<and> filter writes_isConfigured (fst (signOut e')) = []
   \<and> filter writes_isConfigured (fst (checkExistingSession e')) = []
   \<and> isConfigured (perform op s) = isConfigured s
   \<and> isConfigured (perform_all ops s) = isConfigured s"
proof -
  have "isConfigured (mount e) =
       (truthy (EXPO_PUBLIC_GOOGLE_WEB_CLIENT_ID e) \<and> configure_outcome e = Resolves ())"
    using trace_of_keeps_isConfigured [of "CheckExistingSession e"]
    by (simp add: mount_eq run_keeps_isConfigured trace_of_def)
  then show ?thesis
    using trace_of_keeps_isConfigured [of "SignIn e'" a]
      trace_of_keeps_isConfigured [of "SignOut e'"]
      trace_of_keeps_isConfigured [of "CheckExistingSession e'"]
    by (simp add: initialAuthState_def startup_writes_isConfigured_once
        perform_keeps_isConfigured perform_all_keeps_isConfigured trace_of_def)
qed

text \<open>
  C9. After a successful \<open>signInWithGoogle\<close> the committed user has \<open>displayName\<close> and
  \<open>photoURL\<close> present: the name and photo of the Google profile, or the empty string
  where the profile has none (\<open>googleUser.name || ''\<close>). With no name the display name
  is the empty string, for which \<open>getInitials\<close> answers \<open>?\<close>; with no photo either, the
  placeholder shows \<open>?\<close>.
\<close>

theorem C9_profile_fields_present:
  assumes "snd (signIn_try e a) = Inr ()"
  shows "\<exists>r d u.
           google_signIn_outcome e = Resolves r \<and> data r = Some d
           \<and> user (run (fst (signInWithGoogle e a)) s) = Some u
           \<and> displayName u = Some (case google_name (signIn_user d) of None \<Rightarrow> [] | Some n \<Rightarrow> n)
           \<and> photoURL u = Some (case google_photo (signIn_user d) of None \<Rightarrow> [] | Some p \<Rightarrow> p)
           \<and> displayName u \<noteq> None \<and> photoURL u \<noteq> None
           \<and> (\<not> truthy (google_name (signIn_user d)) \<longrightarrow>
                 displayName u = Some [] \<and> getInitials (displayName u) = ''?'')
           \<and> (\<not> truthy (google_name (signIn_user d)) \<and> \<not> truthy (google_photo (signIn_user d)) \<longrightarrow>
                 imageContainer u = PlaceholderText ''?'')"
proof -
  obtain r d token response u where
    g: "google_signIn_outcome e = Resolves r" "data r = Some d"
    and tr: "fst (signIn_try e a) =
               [SetAuthState entry_update, GoogleSignin_hasPlayServices, GoogleSignin_signOut,
                GoogleSignin_signIn, supabase_auth_signInWithIdToken ''google'' token,
                SetAuthState (no_updates\<lparr>p_user := Some (Some (userData u (signIn_user d))),
                                           p_error := Some None\<rparr>)]"
    using signIn_try_success [OF assms] by blast
  have committed: "user (run (fst (signInWithGoogle e a)) s) = Some (userData u (signIn_user d))"
    by (simp add: signInWithGoogle_success [OF assms] tr update_defs)
  have fields: "displayName (userData u (signIn_user d)) =
          Some (case google_name (signIn_user d) of None \<Rightarrow> [] | Some n \<Rightarrow> n)"
      "photoURL (userData u (signIn_user d)) =
          Some (case google_photo (signIn_user d) of None \<Rightarrow> [] | Some p \<Rightarrow> p)"
    by (simp_all add: userData_def or_string_def split: option.splits)
  have empty_name: "\<not> truthy (google_name (signIn_user d)) \<longrightarrow>
      displayName (userData u (signIn_user d)) = Some []
      \<and> getInitials (displayName (userData u (signIn_user d))) = ''?''"
    by (simp add: userData_def or_string_def truthy_def getInitials_def split: option.splits)
  have placeholder: "\<not> truthy (google_name (signIn_user d))
      \<and> \<not> truthy (google_photo (signIn_user d)) \<longrightarrow>
      imageContainer (userData u (signIn_user d)) = PlaceholderText ''?''"
    by (simp add: imageContainer_def userData_def or_string_def truthy_def getInitials_def
        split: option.splits)
  show ?thesis
    using g committed fields empty_name placeholder by (simp add: getInitials_def)
qed

theorem C9_profile_fields_present_witness:
  "snd (signIn_try (example_env\<lparr>google_signIn_outcome :=
          Resolves \<lparr>data = Some \<lparr>signIn_user = \<lparr>google_email = ''ada@x.com'', google_name = None,
                                                  google_photo = None\<rparr>,
                                   idToken = Some ''token''\<rparr>\<rparr>\<rparr>) configured_state) = Inr ()
   \<and> user (run (fst (signInWithGoogle (example_env\<lparr>google_signIn_outcome :=
          Resolves \<lparr>data = Some \<lparr>signIn_user = \<lparr>google_email = ''ada@x.com'', google_name = None,
                                                  google_photo = None\<rparr>,
                                   idToken = Some ''token''\<rparr>\<rparr>\<rparr>) configured_state))
        configured_state) =
      Some \<lparr>id_User = ''u1'', email = ''ada@x.com'', displayName = Some [], photoURL = Some [],
            provider = Some ''google''\<rparr>
   \<and> imageContainer \<lparr>id_User = ''u1'', email = ''ada@x.com'', displayName = Some [],
         photoURL = Some [], provider = Some ''google''\<rparr> = PlaceholderText ''?''"
proof -
  let ?g = "\<lparr>google_email = ''ada@x.com'', google_name = None, google_photo = None\<rparr>"
  let ?e = "example_env\<lparr>google_signIn_outcome :=
              Resolves \<lparr>data = Some \<lparr>signIn_user = ?g, idToken = Some ''token''\<rparr>\<rparr>\<rparr>"
  let ?final = "run (fst (signInWithGoogle ?e configured_state)) configured_state"
  have h: "snd (signIn_try ?e configured_state) = Inr ()"
    by (simp add: signIn_try_outcome example_defs truthy_def)
  obtain r d u where
    g: "google_signIn_outcome ?e = Resolves r" "data r = Some d"
    and u: "user ?final = Some u"
    and name: "\<not> truthy (google_name (signIn_user d)) \<and> \<not> truthy (google_photo (signIn_user d))
                 \<longrightarrow> imageContainer u = PlaceholderText ''?''"
    using C9_profile_fields_present [OF h, of configured_state] by blast
  from g have d: "signIn_user d = ?g"
    by auto
  have final: "user ?final = Some \<lparr>id_User = ''u1'', email = ''ada@x.com'', displayName = Some [],
      photoURL = Some [], provider = Some ''google''\<rparr>"
    by (simp add: signIn_defs comp_defs update_defs example_defs userData_def or_string_def Let_def)
  from name d have "imageContainer u = PlaceholderText ''?''"
    by (simp add: truthy_def)
  with u final h show ?thesis
    by simp
qed

text \<open>
  C10. The \<open>try\<close> block of \<open>signInWithGoogle\<close> and that of \<open>signOut\<close> start with the
  update \<open>{ loading: true, error: null }\<close>, and the events of the block are the first
  events of the operation. From that update to the end of the block \<open>error\<close> is null and
  \<open>loading\<close> true in every state, whatever \<open>error\<close> was before. After the operation
  \<open>error\<close> is null when the block completed and the message of this attempt when it
  threw.
\<close>

theorem C10_entry_clears_error:
  "take 1 (fst (signIn_try e a)) = [SetAuthState entry_update]
   \<and> take (length (fst (signIn_try e a))) (fst (signInWithGoogle e a)) = fst (signIn_try e a)
   \<and> list_all (\<lambda>st. error st = None \<and> loading st) (states (fst (signIn_try e a)) s)
   \<and> error (run (fst (signInWithGoogle e a)) s) =
       (case snd (signIn_try e a) of
          Inl thr \<Rightarrow> Some (signIn_errorMessage e thr)
        | Inr _ \<Rightarrow> None)
   \<and> take 1 (fst (signOut_try e)) = [SetAuthState entry_update]
   \<and> take (length (fst (signOut_try e))) (fst (signOut e)) = fst (signOut_try e)
   \<and> list_all (\<lambda>st. error st = None \<and> loading st) (states (fst (signOut_try e)) s)
   \<and> error (run (fst (signOut e)) s) =
       (case snd (signOut_try e) of
          Inl thr \<Rightarrow> Some (signOut_errorMessage thr)
        | Inr _ \<Rightarrow> None)"
  using signIn_try_entry [of e a] signOut_try_entry [of e]
    signIn_try_prefix [of e a] signOut_try_prefix [of e]
    signIn_final_error [of e a s] signOut_final_error [of e s]
  by (simp add: signIn_try_in_flight signOut_try_in_flight)

end
